theory Spec2Isabelle
  imports Main
begin

section \<open>Go values, errors and the standard library\<close>

text \<open>
  A Go \<open>error\<close> is modelled by its message (the only thing the \<open>error\<close> interface
  exposes); a \<open>nil\<close> error is \<open>None\<close>. A value of type \<open>interface{}\<close> is
  \<open>'v option\<close>, with \<open>None\<close> for the nil interface; \<open>'v\<close> is the universe of Go values.
  A pointer is an index into the store it points to, \<open>None\<close> when it is nil; a function
  that dereferences a nil or unallocated pointer panics, which is the result \<open>None\<close>
  of the function.
\<close>

type_synonym error = string

text \<open>
  Modelled from the spec: the type declaration \<open>AsynchronousMessage\<close> is missing (it is
  in another file of the package; this file only uses its field \<open>Content\<close>). The
  ReifiedMessage of the data model has a description, a concrete content value and
  a metadata map.
\<close>

record 'v AsynchronousMessage =
  Content :: "'v option"
  Description :: string
  Metadata :: "(string \<times> string) list"

text \<open>
  Modelled from the spec: the type declarations \<open>models.V3ProviderState\<close> and \<open>Config\<close>
  are missing. A ProviderState is a name and a mapping of parameters; the configuration
  is the identity of the consumer and the provider and the location of the pact
  directory. The fields are those this file reads (\<open>state.Name\<close>, \<open>state.Parameters\<close>,
  \<open>config.Consumer\<close>, \<open>config.Provider\<close>, \<open>config.PactDir\<close>).
\<close>

record 'v V3ProviderState =
  Name :: string
  Parameters :: "(string \<times> 'v) list"

record Config =
  Consumer :: string
  Provider :: string
  PactDir :: string

section \<open>The native message server\<close>

text \<open>
  Modelled from the spec: the package \<open>internal/native\<close> (\<open>native.MessageServer\<close>, its
  handles \<open>native.Message\<close> and the pact file writer) is missing. A MessageInteraction
  has a description, an ordered list of provider states, a content (a structured value
  or raw bytes with a content type) and a metadata map; it is created empty. The server
  owns the interactions of one consumer/provider pair. This file gets a message handle
  from the server (\<open>p.messageserver.NewMessage()\<close>) and passes no interaction to the
  writer (\<open>p.messageserver.WritePactFile(dir, false)\<close>), so the interactions the writer
  persists are the ones the server created: a handle points to one interaction of one
  server.
\<close>

datatype 'v contents =
    NoContents
  | Contents string string
  | JSONContents "'v option"

record 'v interaction =
  description :: string
  providerStates :: "'v V3ProviderState list"
  contents :: "'v contents"
  metadata :: "(string \<times> string) list"

record 'v MessageServer =
  consumer :: string
  provider :: string
  interactions :: "'v interaction list"

text \<open>
  Modelled from the spec: the pact file format is missing. A Contract has a consumer
  name, a provider name, an ordered list of interactions in matcher form and a version
  marker of the format.
\<close>

record 'v contract =
  contract_consumer :: string
  contract_provider :: string
  contract_interactions :: "'v interaction list"
  specVersion :: string

datatype 'v event =
    NativeInit
  | HandlerCalled "'v AsynchronousMessage"
  | WritePactFileCalled nat string bool
  | TestErrorf string

text \<open>
  The state outside the Go values: the native heap of message servers, the files of the
  pact directory, the paths that cannot be written, the working directory of the
  process (\<open>None\<close> when \<open>os.Getwd\<close> fails) and the trace of the calls that leave the
  function under verification (native initialisation, handler, pact file writer,
  \<open>t.Errorf\<close>). Logging is not modelled.
\<close>

record 'v world =
  servers :: "'v MessageServer list"
  files :: "string \<Rightarrow> 'v contract option"
  unwritable :: "string set"
  cwd :: "string option"
  trace :: "'v event list"

definition server_at :: "'v world \<Rightarrow> nat \<Rightarrow> 'v MessageServer option" where
  "server_at w s = (if s < length (servers w) then Some (servers w ! s) else None)"

definition interaction_at :: "'v world \<Rightarrow> nat \<times> nat \<Rightarrow> 'v interaction option" where
  "interaction_at w h =
     (case server_at w (fst h) of
        None \<Rightarrow> None
      | Some srv \<Rightarrow>
          if snd h < length (interactions srv) then Some (interactions srv ! snd h)
          else None)"

definition update_interaction ::
  "nat \<times> nat \<Rightarrow> ('v interaction \<Rightarrow> 'v interaction) \<Rightarrow> 'v world \<Rightarrow> 'v world option" where
  "update_interaction h f w =
     (case server_at w (fst h) of
        None \<Rightarrow> None
      | Some srv \<Rightarrow>
          if snd h < length (interactions srv)
          then Some (w\<lparr>servers := (servers w)
                 [fst h := srv\<lparr>interactions := (interactions srv)
                    [snd h := f (interactions srv ! snd h)]\<rparr>]\<rparr>)
          else None)"

definition empty_interaction :: "'v interaction" where
  "empty_interaction =
     \<lparr>description = [], providerStates = [], contents = NoContents, metadata = []\<rparr>"

text \<open>Modelled from the spec: \<open>native.NewMessageServer\<close> is missing; it allocates a server
  for the pair, with no interaction yet.\<close>

definition NewMessageServer :: "string \<Rightarrow> string \<Rightarrow> 'v world \<Rightarrow> nat \<times> 'v world" where
  "NewMessageServer c p w =
     (length (servers w),
      w\<lparr>servers := servers w @ [\<lparr>consumer = c, provider = p, interactions = []\<rparr>]\<rparr>)"

text \<open>Modelled from the spec: \<open>MessageServer.NewMessage\<close> is missing; the interaction is
  created empty by the builder, in the server the handle was asked from.\<close>

definition NewMessage :: "nat \<Rightarrow> 'v world \<Rightarrow> ((nat \<times> nat) \<times> 'v world) option" where
  "NewMessage s w =
     (case server_at w s of
        None \<Rightarrow> None
      | Some srv \<Rightarrow>
          Some ((s, length (interactions srv)),
                w\<lparr>servers := (servers w)
                   [s := srv\<lparr>interactions := interactions srv @ [empty_interaction]\<rparr>]\<rparr>))"

text \<open>
  Modelled from the spec: the setters of \<open>native.Message\<close> are missing.
  \<open>withProviderState\<close> appends a provider state (no uniqueness constraint, order
  preserved); \<open>expectsToReceive\<close> sets or overwrites the description; \<open>withMetadata\<close>
  replaces the metadata map wholesale; the content setters set the content, the last
  call wins.
\<close>

definition native_GivenWithParameter ::
  "nat \<times> nat \<Rightarrow> string \<Rightarrow> (string \<times> 'v) list \<Rightarrow> 'v world \<Rightarrow> 'v world option" where
  "native_GivenWithParameter h n ps =
     update_interaction h
       (\<lambda>i. i\<lparr>providerStates := providerStates i @ [\<lparr>Name = n, Parameters = ps\<rparr>]\<rparr>)"

definition native_ExpectsToReceive :: "nat \<times> nat \<Rightarrow> string \<Rightarrow> 'v world \<Rightarrow> 'v world option" where
  "native_ExpectsToReceive h d = update_interaction h (\<lambda>i. i\<lparr>description := d\<rparr>)"

definition native_WithMetadata ::
  "nat \<times> nat \<Rightarrow> (string \<times> string) list \<Rightarrow> 'v world \<Rightarrow> 'v world option" where
  "native_WithMetadata h md = update_interaction h (\<lambda>i. i\<lparr>metadata := md\<rparr>)"

definition native_WithContents ::
  "nat \<times> nat \<Rightarrow> string \<Rightarrow> string \<Rightarrow> 'v world \<Rightarrow> 'v world option" where
  "native_WithContents h ct body = update_interaction h (\<lambda>i. i\<lparr>contents := Contents ct body\<rparr>)"

definition native_WithJSONContents :: "nat \<times> nat \<Rightarrow> 'v option \<Rightarrow> 'v world \<Rightarrow> 'v world option" where
  "native_WithJSONContents h c = update_interaction h (\<lambda>i. i\<lparr>contents := JSONContents c\<rparr>)"

text \<open>Modelled from the spec: \<open>native.Init\<close> is missing; the setup of the engine does
  nothing but happen, which the trace records.\<close>

definition native_Init :: "'v world \<Rightarrow> 'v world" where
  "native_Init w = w\<lparr>trace := trace w @ [NativeInit]\<rparr>"

text \<open>
  Modelled from the spec: the merge of the Contract Store is missing. The new
  interactions are merged with the existing ones: de-duplicated by structural equality
  (same description, provider states, content and metadata), new interactions not
  already present appended, existing ones left untouched.
\<close>

fun merge_interactions :: "'a list \<Rightarrow> 'a list \<Rightarrow> 'a list" where
  "merge_interactions existing [] = existing"
| "merge_interactions existing (i # new) =
     merge_interactions (if i \<in> set existing then existing else existing @ [i]) new"

text \<open>Modelled from the spec: the naming convention of the pact file is missing; the
  path is \<open><pactDir>/<consumer>-<provider>.json\<close>, the same for the same pair.\<close>

definition pact_path :: "string \<Rightarrow> string \<Rightarrow> string \<Rightarrow> string" where
  "pact_path dir c p = dir @ ''/'' @ c @ ''-'' @ p @ ''.json''"

text \<open>Modelled from the spec: the error of the writer is missing; a filesystem failure
  is an \<open>IOError\<close>.\<close>

definition IOError :: error where
  "IOError = ''IOError''"

text \<open>Modelled from the spec: the version marker of the contract format is missing;
  the package is \<open>v3\<close>.\<close>

definition pact_specification :: string where
  "pact_specification = ''3.0.0''"

text \<open>
  Modelled from the spec: \<open>MessageServer.WritePactFile\<close> is missing. The target path is
  resolved from the directory and the names of the pair. When \<open>overwrite\<close> is false and a
  file exists for the pair, the interactions of the server are merged with the existing
  ones. A missing file is read as a contract without interactions, and \<open>overwrite\<close>
  discards the existing interactions. The write fails with \<open>IOError\<close> on a filesystem
  failure (here: the path is not writable) and then leaves the files as they were.
\<close>

definition WritePactFile ::
  "nat \<Rightarrow> string \<Rightarrow> bool \<Rightarrow> 'v world \<Rightarrow> (error option \<times> 'v world) option" where
  "WritePactFile s dir overwrite w =
     (case server_at w s of
        None \<Rightarrow> None
      | Some srv \<Rightarrow>
          let path = pact_path dir (consumer srv) (provider srv);
              w1 = w\<lparr>trace := trace w @ [WritePactFileCalled s dir overwrite]\<rparr>;
              existing = (if overwrite then []
                          else case files w path of
                                 None \<Rightarrow> []
                               | Some c \<Rightarrow> contract_interactions c)
          in if path \<in> unwritable w then Some (Some IOError, w1)
             else Some (None,
                    w1\<lparr>files := (files w)(path \<mapsto>
                       \<lparr>contract_consumer = consumer srv,
                        contract_provider = provider srv,
                        contract_interactions =
                          merge_interactions existing (interactions srv),
                        specVersion = pact_specification\<rparr>)\<rparr>))"


section \<open>The functions this file calls and does not define\<close>

text \<open>
  \<open>ReifyMessage\<close> of the native message handle returns the reified interaction as JSON
  text, and \<open>encoding/json\<close>, \<open>reflect\<close>, \<open>fmt\<close> and \<open>path/filepath\<close> are Go's standard
  library. They are parameters of the embedding: every theorem below holds for every
  behaviour of them.
  \<^item> \<open>ReifyMessage i\<close>: the body the native handle returns for the interaction \<open>i\<close>;
  \<^item> \<open>json_Unmarshal_message body\<close>: \<open>json.Unmarshal([]byte(body), &m)\<close> for a fresh
    \<open>AsynchronousMessage\<close>, the decode error or the decoded message;
  \<^item> \<open>json_Marshal v\<close>: \<open>json.Marshal(v)\<close>;
  \<^item> \<open>json_Unmarshal_iface s t\<close>: \<open>json.Unmarshal(s, &x)\<close> for an \<open>interface{}\<close> variable
    \<open>x\<close> holding \<open>t\<close>, the value \<open>x\<close> holds afterwards and the error;
  \<^item> \<open>TypeOf_Name v\<close>: \<open>reflect.TypeOf(v).Name()\<close> for a non-nil \<open>v\<close>
    (\<open>reflect.TypeOf\<close> is nil exactly for the nil interface);
  \<^item> \<open>fmt_plus_v v\<close>: the text of \<open>v\<close> under the verb \<open>%+v\<close>;
  \<^item> \<open>filepath_Join a b\<close>: \<open>filepath.Join(a, b)\<close>.
\<close>

record 'v runtime =
  ReifyMessage :: "'v interaction \<Rightarrow> string"
  json_Unmarshal_message :: "string \<Rightarrow> error + 'v AsynchronousMessage"
  json_Marshal :: "'v option \<Rightarrow> error + string"
  json_Unmarshal_iface :: "string \<Rightarrow> 'v option \<Rightarrow> 'v option \<times> error option"
  TypeOf_Name :: "'v \<Rightarrow> string"
  fmt_plus_v :: "'v option \<Rightarrow> string"
  filepath_Join :: "string \<Rightarrow> string \<Rightarrow> string"

text \<open>\<open>os.Getwd\<close>: the working directory, or the empty string and an error.\<close>

definition os_Getwd :: "'v world \<Rightarrow> string \<times> error option" where
  "os_Getwd w = (case cwd w of None \<Rightarrow> ([], Some ''getwd'') | Some d \<Rightarrow> (d, None))"

section \<open>asynchronous_message.go\<close>

record Pact =
  config :: Config
  messageserver :: "nat option"

record 'v Message =
  messageHandle :: "(nat \<times> nat) option"
  messagePactV3 :: "Pact option"
  Type :: "'v option"
  handler :: "('v AsynchronousMessage \<Rightarrow> error option) option"

definition Given ::
  "'v Message \<Rightarrow> 'v V3ProviderState \<Rightarrow> 'v world \<Rightarrow> ('v Message \<times> 'v world) option" where
  "Given m state w =
     (case messageHandle m of
        None \<Rightarrow> None
      | Some h \<Rightarrow>
          (case native_GivenWithParameter h (Name state) (Parameters state) w of
             None \<Rightarrow> None
           | Some w' \<Rightarrow> Some (m, w')))"

definition ExpectsToReceive ::
  "'v Message \<Rightarrow> string \<Rightarrow> 'v world \<Rightarrow> ('v Message \<times> 'v world) option" where
  "ExpectsToReceive m d w =
     (case messageHandle m of
        None \<Rightarrow> None
      | Some h \<Rightarrow>
          (case native_ExpectsToReceive h d w of
             None \<Rightarrow> None
           | Some w' \<Rightarrow> Some (m, w')))"

definition WithMetadata ::
  "'v Message \<Rightarrow> (string \<times> string) list \<Rightarrow> 'v world \<Rightarrow> ('v Message \<times> 'v world) option" where
  "WithMetadata m md w =
     (case messageHandle m of
        None \<Rightarrow> None
      | Some h \<Rightarrow>
          (case native_WithMetadata h md w of
             None \<Rightarrow> None
           | Some w' \<Rightarrow> Some (m, w')))"

definition WithBinaryContent ::
  "'v Message \<Rightarrow> string \<Rightarrow> string \<Rightarrow> 'v world \<Rightarrow> ('v Message \<times> 'v world) option" where
  "WithBinaryContent m contentType body w =
     (case messageHandle m of
        None \<Rightarrow> None
      | Some h \<Rightarrow>
          (case native_WithContents h contentType body w of
             None \<Rightarrow> None
           | Some w' \<Rightarrow> Some (m, w')))"

definition WithContent ::
  "'v Message \<Rightarrow> string \<Rightarrow> string \<Rightarrow> 'v world \<Rightarrow> ('v Message \<times> 'v world) option" where
  "WithContent m contentType body w =
     (case messageHandle m of
        None \<Rightarrow> None
      | Some h \<Rightarrow>
          (case native_WithContents h contentType body w of
             None \<Rightarrow> None
           | Some w' \<Rightarrow> Some (m, w')))"

definition WithJSONContent ::
  "'v Message \<Rightarrow> 'v option \<Rightarrow> 'v world \<Rightarrow> ('v Message \<times> 'v world) option" where
  "WithJSONContent m content w =
     (case messageHandle m of
        None \<Rightarrow> None
      | Some h \<Rightarrow>
          (case native_WithJSONContents h content w of
             None \<Rightarrow> None
           | Some w' \<Rightarrow> Some (m, w')))"

definition AsType :: "'v Message \<Rightarrow> 'v option \<Rightarrow> 'v Message" where
  "AsType m t = m\<lparr>Type := t\<rparr>"

definition ConsumedBy ::
  "'v Message \<Rightarrow> ('v AsynchronousMessage \<Rightarrow> error option) option \<Rightarrow> 'v Message" where
  "ConsumedBy m h = m\<lparr>handler := h\<rparr>"

text \<open>
  \<open>validateConfig\<close> ignores the error of \<open>os.Getwd\<close>, defaults an empty \<open>PactDir\<close>,
  allocates the message server and returns nil. It mutates the \<open>Pact\<close> it is called on,
  so the model returns the updated value.
\<close>

definition validateConfig ::
  "'v runtime \<Rightarrow> Pact \<Rightarrow> 'v world \<Rightarrow> error option \<times> Pact \<times> 'v world" where
  "validateConfig rt p w =
     (let dir = fst (os_Getwd w);
          p1 = (if PactDir (config p) = []
                then p\<lparr>config := (config p)\<lparr>PactDir := filepath_Join rt dir ''pacts''\<rparr>\<rparr>
                else p);
          sw = NewMessageServer (Consumer (config p1)) (Provider (config p1)) w
      in (None, p1\<lparr>messageserver := Some (fst sw)\<rparr>, snd sw))"

text \<open>\<open>NewMessagePact\<close> returns a pointer to the \<open>Pact\<close> and an error; a nil pointer is
  \<open>None\<close>.\<close>

definition NewMessagePact ::
  "'v runtime \<Rightarrow> Config \<Rightarrow> 'v world \<Rightarrow> (Pact option \<times> error option) \<times> 'v world" where
  "NewMessagePact rt c w =
     (let provider0 = \<lparr>config = c, messageserver = None\<rparr>;
          r = validateConfig rt provider0 w;
          err = fst r;
          provider1 = fst (snd r);
          w1 = snd (snd r)
      in if err \<noteq> None then ((None, err), w1)
         else ((Some provider1, err), native_Init w1))"

definition AddAsynchronousMessage ::
  "Pact \<Rightarrow> 'v world \<Rightarrow> ('v Message \<times> 'v world) option" where
  "AddAsynchronousMessage p w =
     (case messageserver p of
        None \<Rightarrow> None
      | Some s \<Rightarrow>
          (case NewMessage s w of
             None \<Rightarrow> None
           | Some hw \<Rightarrow>
               Some (\<lparr>messageHandle = Some (fst hw), messagePactV3 = Some p,
                      Type = None, handler = None\<rparr>, snd hw)))"

definition AddMessage :: "Pact \<Rightarrow> 'v world \<Rightarrow> ('v Message \<times> 'v world) option" where
  "AddMessage p w = AddAsynchronousMessage p w"

text \<open>
  \<open>verifyMessageConsumerRaw\<close>: the result is \<open>None\<close> when the call panics, and otherwise the
  returned error, the message (its field \<open>Type\<close> is decoded into in place) and the
  state. The narrowing block either returns early (\<open>Inl\<close>) or falls through with the
  message to yield (\<open>Inr\<close>).
\<close>

definition verifyMessageConsumerRaw ::
  "'v runtime \<Rightarrow> Pact \<Rightarrow> 'v Message \<Rightarrow> ('v AsynchronousMessage \<Rightarrow> error option) option \<Rightarrow>
   'v world \<Rightarrow> (error option \<times> 'v Message \<times> 'v world) option" where
  "verifyMessageConsumerRaw rt p messageToVerify hdl w =
     (case messageHandle messageToVerify of
        None \<Rightarrow> None
      | Some mh \<Rightarrow>
     (case interaction_at w mh of
        None \<Rightarrow> None
      | Some i \<Rightarrow>
     (let body = ReifyMessage rt i in
      case json_Unmarshal_message rt body of
        Inl _ \<Rightarrow>
          Some (Some ''unexpected response from message server, this is a bug in the framework'',
                messageToVerify, w)
      | Inr m \<Rightarrow>
     (let narrowed =
            (case Type messageToVerify of
               None \<Rightarrow> Inr (m, messageToVerify)
             | Some tv \<Rightarrow>
                 if TypeOf_Name rt tv \<noteq> ''interface'' then
                   (case json_Marshal rt (Content m) of
                      Inl _ \<Rightarrow>
                        Inl (''unable to generate message for type: ''
                               @ fmt_plus_v rt (Type messageToVerify),
                             messageToVerify)
                    | Inr s \<Rightarrow>
                        (let r = json_Unmarshal_iface rt s (Type messageToVerify);
                             msg1 = messageToVerify\<lparr>Type := fst r\<rparr>
                         in case snd r of
                              Some e \<Rightarrow>
                                Inl (''unable to narrow type to '' @ TypeOf_Name rt tv
                                       @ '': '' @ e,
                                     msg1)
                            | None \<Rightarrow> Inr (m\<lparr>Content := Type msg1\<rparr>, msg1)))
                 else Inr (m, messageToVerify))
      in case narrowed of
           Inl em \<Rightarrow> Some (Some (fst em), snd em, w)
         | Inr mm \<Rightarrow>
             (case hdl of
                None \<Rightarrow> None
              | Some f \<Rightarrow>
                  (let err = f (fst mm);
                       w1 = w\<lparr>trace := trace w @ [HandlerCalled (fst mm)]\<rparr>
                   in if err \<noteq> None then Some (err, snd mm, w1)
                      else
                        (case messageserver p of
                           None \<Rightarrow> None
                         | Some s \<Rightarrow>
                             (case WritePactFile s (PactDir (config p)) False w1 of
                                None \<Rightarrow> None
                              | Some ew \<Rightarrow> Some (fst ew, snd mm, snd ew)))))))))"

text \<open>
  The narrowing block and the tail of \<open>verifyMessageConsumerRaw\<close> under names of their own,
  so that the proofs can treat them one at a time; \<open>verifyMessageConsumerRaw_blocks\<close>
  below shows that the function is their composition.
\<close>

definition narrow_block ::
  "'v runtime \<Rightarrow> 'v Message \<Rightarrow> 'v AsynchronousMessage \<Rightarrow>
   (error \<times> 'v Message) + ('v AsynchronousMessage \<times> 'v Message)" where
  "narrow_block rt messageToVerify m =
     (case Type messageToVerify of
        None \<Rightarrow> Inr (m, messageToVerify)
      | Some tv \<Rightarrow>
          if TypeOf_Name rt tv \<noteq> ''interface'' then
            (case json_Marshal rt (Content m) of
               Inl _ \<Rightarrow>
                 Inl (''unable to generate message for type: ''
                        @ fmt_plus_v rt (Type messageToVerify),
                      messageToVerify)
             | Inr s \<Rightarrow>
                 (let r = json_Unmarshal_iface rt s (Type messageToVerify);
                      msg1 = messageToVerify\<lparr>Type := fst r\<rparr>
                  in case snd r of
                       Some e \<Rightarrow>
                         Inl (''unable to narrow type to '' @ TypeOf_Name rt tv
                                @ '': '' @ e,
                              msg1)
                     | None \<Rightarrow> Inr (m\<lparr>Content := Type msg1\<rparr>, msg1)))
          else Inr (m, messageToVerify))"

definition yield_block ::
  "Pact \<Rightarrow> ('v AsynchronousMessage \<Rightarrow> error option) option \<Rightarrow>
   'v AsynchronousMessage \<times> 'v Message \<Rightarrow> 'v world \<Rightarrow>
   (error option \<times> 'v Message \<times> 'v world) option" where
  "yield_block p hdl mm w =
     (case hdl of
        None \<Rightarrow> None
      | Some f \<Rightarrow>
          (let err = f (fst mm);
               w1 = w\<lparr>trace := trace w @ [HandlerCalled (fst mm)]\<rparr>
           in if err \<noteq> None then Some (err, snd mm, w1)
              else
                (case messageserver p of
                   None \<Rightarrow> None
                 | Some s \<Rightarrow>
                     (case WritePactFile s (PactDir (config p)) False w1 of
                        None \<Rightarrow> None
                      | Some ew \<Rightarrow> Some (fst ew, snd mm, snd ew)))))"

definition Pact_Verify ::
  "'v runtime \<Rightarrow> Pact \<Rightarrow> 'v Message \<Rightarrow> ('v AsynchronousMessage \<Rightarrow> error option) option \<Rightarrow>
   'v world \<Rightarrow> (error option \<times> 'v Message \<times> 'v world) option" where
  "Pact_Verify rt p message hdl w =
     (case verifyMessageConsumerRaw rt p message hdl w of
        None \<Rightarrow> None
      | Some r \<Rightarrow>
          (case fst r of
             None \<Rightarrow> Some r
           | Some e \<Rightarrow>
               Some (Some e, fst (snd r),
                     (snd (snd r))\<lparr>trace := trace (snd (snd r))
                        @ [TestErrorf (''VerifyMessageConsumer failed: '' @ e)]\<rparr>)))"

definition Message_Verify ::
  "'v runtime \<Rightarrow> 'v Message \<Rightarrow> 'v world \<Rightarrow> (error option \<times> 'v Message \<times> 'v world) option" where
  "Message_Verify rt m w =
     (case messagePactV3 m of
        None \<Rightarrow> None
      | Some p \<Rightarrow> Pact_Verify rt p m (handler m) w)"

section \<open>Matcher model and reification\<close>

text \<open>
  Modelled from the spec: the Matcher Model is missing (reification is done by the
  native engine behind \<open>ReifyMessage\<close>). A MatchingRule is a tagged variant: Equality,
  Regex with a pattern, Type, Format with a format, array-min/max, and the kinds of
  external rules that are not recognised. A MatcherNode is a literal scalar, an ordered
  sequence of nodes, a mapping of string keys to nodes (an association list here), or a
  value annotated with a matching rule and an optional generator hint.
\<close>

datatype scalar = SNull | SBool bool | SNumber int | SString string

datatype matching_rule =
    Equality
  | Regex string
  | TypeRule
  | Format string
  | ArrayMinMax nat nat
  | Unrecognised string

datatype matcher_node =
    Literal scalar
  | Sequence "matcher_node list"
  | Mapping "(string \<times> matcher_node) list"
  | Annotated matcher_node matching_rule "string option"

text \<open>
  Modelled from the spec: "plain value" is missing. A plain value is a literal or a
  container of plain values: it carries no matching rule and no matcher metadata.
\<close>

fun plain :: "matcher_node \<Rightarrow> bool" where
  "plain (Literal s) = True"
| "plain (Sequence xs) = (\<forall>x \<in> set xs. plain x)"
| "plain (Mapping kvs) = (\<forall>kv \<in> set kvs. plain (snd kv))"
| "plain (Annotated ex r g) = False"

text \<open>Modelled from the spec: "recognised rule kind" is missing. A tree is recognised
  when no rule in it, at any depth, is of a kind that is not recognised.\<close>

fun recognised :: "matcher_node \<Rightarrow> bool" where
  "recognised (Literal s) = True"
| "recognised (Sequence xs) = (\<forall>x \<in> set xs. recognised x)"
| "recognised (Mapping kvs) = (\<forall>kv \<in> set kvs. recognised (snd kv))"
| "recognised (Annotated ex r g) =
     (recognised ex \<and> (case r of Unrecognised k \<Rightarrow> False | _ \<Rightarrow> True))"

text \<open>Modelled from the spec: the error of the engine is missing; a rule kind that is
  not recognised fails with \<open>UnsupportedMatcherKind\<close>.\<close>

datatype reify_error = UnsupportedMatcherKind string

text \<open>Modelled from the spec: how the failure of an element reaches the container is
  missing; the results of the elements are taken in order and the first error wins.\<close>

fun collect :: "('e + 'a) list \<Rightarrow> 'e + 'a list" where
  "collect [] = Inr []"
| "collect (Inl e # rs) = Inl e"
| "collect (Inr v # rs) = (case collect rs of Inl e \<Rightarrow> Inl e | Inr vs \<Rightarrow> Inr (v # vs))"

text \<open>Modelled from the spec: "generate the minimum count" is missing; the elements are
  the reified elements of the example in order, repeated when the example has fewer.\<close>

definition generate_min :: "nat \<Rightarrow> 'a list \<Rightarrow> 'a list" where
  "generate_min n xs = take n (concat (replicate n xs))"

text \<open>
  Modelled from the spec: the resolution of an annotated node per rule kind is missing.
  The value \<open>v\<close> is the embedded example value after its own reification. Equality, Type
  and Regex use the embedded example value; a Format uses the embedded example value,
  or a computed canonical instance if no example is given (the example is null); a rule
  that specifies array-min/max generates the minimum count from the reified elements of
  a sequence; a kind that is not recognised fails with \<open>UnsupportedMatcherKind\<close>
  rather than passing the wrapped rule through. The canonical instance of a format is
  the scalar \<open>canon f\<close>.
\<close>

fun resolve ::
  "(string \<Rightarrow> scalar) \<Rightarrow> matcher_node \<Rightarrow> matching_rule \<Rightarrow> reify_error + matcher_node" where
  "resolve canon v Equality = Inr v"
| "resolve canon v TypeRule = Inr v"
| "resolve canon v (Regex pat) = Inr v"
| "resolve canon v (Format f) = Inr (if v = Literal SNull then Literal (canon f) else v)"
| "resolve canon v (ArrayMinMax mn mx) =
     Inr (case v of Sequence vs \<Rightarrow> Sequence (generate_min mn vs) | _ \<Rightarrow> v)"
| "resolve canon v (Unrecognised k) = Inl (UnsupportedMatcherKind k)"

text \<open>
  Modelled from the spec: the Reification Engine is missing. Recursive descent: a
  literal scalar is itself; a sequence reifies each element in order and preserves
  order and length; a mapping reifies each value and preserves the keys; in an annotated
  node the descent goes on into the embedded value (so that the elements of an
  annotated sequence are reified, and a rule nested in an example does not survive) and
  the node is then resolved per rule kind.
\<close>

fun reify :: "(string \<Rightarrow> scalar) \<Rightarrow> matcher_node \<Rightarrow> reify_error + matcher_node" where
  "reify canon (Literal s) = Inr (Literal s)"
| "reify canon (Sequence xs) =
     (case collect (map (reify canon) xs) of
        Inl e \<Rightarrow> Inl e
      | Inr vs \<Rightarrow> Inr (Sequence vs))"
| "reify canon (Mapping kvs) =
     (case collect (map (\<lambda>kv. reify canon (snd kv)) kvs) of
        Inl e \<Rightarrow> Inl e
      | Inr vs \<Rightarrow> Inr (Mapping (zip (map fst kvs) vs)))"
| "reify canon (Annotated ex r g) =
     (case reify canon ex of
        Inl e \<Rightarrow> Inl e
      | Inr v \<Rightarrow> resolve canon v r)"

section \<open>Example values\<close>

text \<open>
  A consumer test as a user of the package writes it, for the concrete instances of the
  theorems below: the process starts in \<open>/work\<close> with no pact file, creates the pact
  of a consumer and a provider and adds one message. The collaborators are stubs: the
  native handle reifies to the given body, which decodes to the given message, and
  decoding into the target type gives the given result.
\<close>

definition stub_runtime ::
  "string \<Rightarrow> (error + matcher_node AsynchronousMessage) \<Rightarrow>
   (matcher_node option \<times> error option) \<Rightarrow> matcher_node runtime" where
  "stub_runtime body decoded narrowed =
     \<lparr>ReifyMessage = (\<lambda>i. body),
      json_Unmarshal_message = (\<lambda>b. if b = body then decoded else Inl ''invalid character''),
      json_Marshal = (\<lambda>v. Inr ''null''),
      json_Unmarshal_iface = (\<lambda>s t. narrowed),
      TypeOf_Name = (\<lambda>v. ''Order''),
      fmt_plus_v = (\<lambda>v. ''{}''),
      filepath_Join = (\<lambda>a b. a @ ''/'' @ b)\<rparr>"

definition start_world :: "matcher_node world" where
  "start_world =
     \<lparr>servers = [], files = (\<lambda>path. None), unwritable = {}, cwd = Some ''/work'',
      trace = []\<rparr>"

definition example_config :: Config where
  "example_config = \<lparr>Consumer = ''consumer'', Provider = ''provider'', PactDir = []\<rparr>"

definition example_pact :: Pact where
  "example_pact =
     \<lparr>config = \<lparr>Consumer = ''consumer'', Provider = ''provider'', PactDir = ''/work/pacts''\<rparr>,
      messageserver = Some 0\<rparr>"

definition example_message :: "matcher_node Message" where
  "example_message =
     \<lparr>messageHandle = Some (0, 0), messagePactV3 = Some example_pact,
      Type = None, handler = None\<rparr>"

definition world_with :: "matcher_node interaction list \<Rightarrow> matcher_node world" where
  "world_with xs =
     \<lparr>servers = [\<lparr>consumer = ''consumer'', provider = ''provider'', interactions = xs\<rparr>],
      files = (\<lambda>path. None), unwritable = {}, cwd = Some ''/work'',
      trace = [NativeInit]\<rparr>"

definition written_world ::
  "matcher_node interaction list \<Rightarrow> matcher_node interaction list \<Rightarrow>
   matcher_node event list \<Rightarrow> matcher_node world" where
  "written_world xs persisted t =
     \<lparr>servers = [\<lparr>consumer = ''consumer'', provider = ''provider'', interactions = xs\<rparr>],
      files = (\<lambda>path. None)(''/work/pacts/consumer-provider.json'' \<mapsto>
        \<lparr>contract_consumer = ''consumer'', contract_provider = ''provider'',
         contract_interactions = persisted, specVersion = ''3.0.0''\<rparr>),
      unwritable = {}, cwd = Some ''/work'', trace = t\<rparr>"

definition zero_message :: "matcher_node AsynchronousMessage" where
  "zero_message = \<lparr>Content = None, Description = [], Metadata = []\<rparr>"

definition failing_handler :: "matcher_node AsynchronousMessage \<Rightarrow> error option" where
  "failing_handler m = Some ''boom''"

definition accepting_handler :: "matcher_node AsynchronousMessage \<Rightarrow> error option" where
  "accepting_handler m = None"

text \<open>The example scenario: an order created event whose fields are matched by type.\<close>

definition order_content :: matcher_node where
  "order_content =
     Mapping [(''orderId'', Annotated (Literal (SString ''abc123'')) TypeRule None),
              (''amount'', Annotated (Literal (SNumber 42)) TypeRule None)]"

definition order_reified :: matcher_node where
  "order_reified =
     Mapping [(''orderId'', Literal (SString ''abc123'')),
              (''amount'', Literal (SNumber 42))]"

definition order_interaction :: "matcher_node interaction" where
  "order_interaction =
     \<lparr>description = ''an order created event'', providerStates = [],
      contents = JSONContents (Some order_content), metadata = []\<rparr>"


definition canonical_text :: "string \<Rightarrow> scalar" where
  "canonical_text f = SString f"

text \<open>An event whose items are an each-like sequence (at least two) of mappings with a
  field matched by a regular expression, and whose date has a format and no example.\<close>

definition event_content :: matcher_node where
  "event_content =
     Mapping
       [(''items'',
         Annotated
           (Sequence [Mapping [(''sku'', Annotated (Literal (SString ''A1''))
                                           (Regex ''[A-Z][0-9]'') None)]])
           (ArrayMinMax 2 5) None),
        (''at'', Annotated (Literal SNull) (Format ''date'') (Some ''Date''))]"

definition event_reified :: matcher_node where
  "event_reified =
     Mapping
       [(''items'',
         Sequence [Mapping [(''sku'', Literal (SString ''A1''))],
                   Mapping [(''sku'', Literal (SString ''A1''))]]),
        (''at'', Literal (SString ''date''))]"

section \<open>The structure of verifyMessageConsumerRaw\<close>

lemma verifyMessageConsumerRaw_blocks:
  "verifyMessageConsumerRaw rt p msg hdl w =
     (case messageHandle msg of
        None \<Rightarrow> None
      | Some mh \<Rightarrow>
     (case interaction_at w mh of
        None \<Rightarrow> None
      | Some i \<Rightarrow>
     (case json_Unmarshal_message rt (ReifyMessage rt i) of
        Inl _ \<Rightarrow>
          Some (Some ''unexpected response from message server, this is a bug in the framework'',
                msg, w)
      | Inr m \<Rightarrow>
     (case narrow_block rt msg m of
        Inl em \<Rightarrow> Some (Some (fst em), snd em, w)
      | Inr mm \<Rightarrow> yield_block p hdl mm w))))"
  unfolding verifyMessageConsumerRaw_def narrow_block_def yield_block_def Let_def
  by (rule refl)

lemma verify_decoded:
  assumes "messageHandle msg = Some mh" and "interaction_at w mh = Some i"
    and "json_Unmarshal_message rt (ReifyMessage rt i) = Inr m"
  shows "verifyMessageConsumerRaw rt p msg hdl w =
           (case narrow_block rt msg m of
              Inl em \<Rightarrow> Some (Some (fst em), snd em, w)
            | Inr mm \<Rightarrow> yield_block p hdl mm w)"
  using assms by (simp add: verifyMessageConsumerRaw_blocks)

lemma verify_not_decoded:
  assumes "messageHandle msg = Some mh" and "interaction_at w mh = Some i"
    and "json_Unmarshal_message rt (ReifyMessage rt i) = Inl e"
  shows "verifyMessageConsumerRaw rt p msg hdl w =
           Some (Some ''unexpected response from message server, this is a bug in the framework'',
                 msg, w)"
  using assms by (simp add: verifyMessageConsumerRaw_blocks)

lemma verify_Some_cases:
  assumes "verifyMessageConsumerRaw rt p msg hdl w = Some (r, msg', w')"
  shows "(w' = w \<and> r \<noteq> None) \<or>
         (\<exists>mh i m mm. messageHandle msg = Some mh \<and> interaction_at w mh = Some i \<and>
            json_Unmarshal_message rt (ReifyMessage rt i) = Inr m \<and>
            narrow_block rt msg m = Inr mm \<and>
            yield_block p hdl mm w = Some (r, msg', w'))"
  using assms
  by (auto simp: verifyMessageConsumerRaw_blocks split: option.splits sum.splits)

lemma narrow_block_no_type: "Type msg = None \<Longrightarrow> narrow_block rt msg m = Inr (m, msg)"
  by (simp add: narrow_block_def)

lemma narrow_block_failed:
  assumes "Type msg = Some tv" and "TypeOf_Name rt tv \<noteq> ''interface''"
    and "json_Marshal rt (Content m) = Inr s"
    and "snd (json_Unmarshal_iface rt s (Some tv)) = Some e"
  shows "narrow_block rt msg m =
           Inl (''unable to narrow type to '' @ TypeOf_Name rt tv @ '': '' @ e,
                msg\<lparr>Type := fst (json_Unmarshal_iface rt s (Some tv))\<rparr>)"
  using assms by (simp add: narrow_block_def Let_def)

lemma narrow_block_ok:
  assumes "Type msg = Some tv" and "TypeOf_Name rt tv \<noteq> ''interface''"
    and "json_Marshal rt (Content m) = Inr s"
    and "snd (json_Unmarshal_iface rt s (Some tv)) = None"
  shows "narrow_block rt msg m =
           Inr (m\<lparr>Content := fst (json_Unmarshal_iface rt s (Some tv))\<rparr>,
                msg\<lparr>Type := fst (json_Unmarshal_iface rt s (Some tv))\<rparr>)"
  using assms by (simp add: narrow_block_def Let_def)

lemma server_at_trace [simp]: "server_at (w\<lparr>trace := t\<rparr>) s = server_at w s"
  by (simp add: server_at_def)


lemma WritePactFile_Some:
  "WritePactFile s dir ov w = Some (r, w') \<Longrightarrow>
     servers w' = servers w \<and> unwritable w' = unwritable w \<and> cwd w' = cwd w \<and>
     trace w' = trace w @ [WritePactFileCalled s dir ov]"
  by (auto simp: WritePactFile_def Let_def split: option.splits if_splits)


lemma yield_block_Some:
  assumes "yield_block p (Some f) mm w = Some (r, msg', w')"
  shows "msg' = snd mm \<and>
         ((f (fst mm) = r \<and> r \<noteq> None \<and>
           w' = w\<lparr>trace := trace w @ [HandlerCalled (fst mm)]\<rparr>) \<or>
          (f (fst mm) = None \<and>
           (\<exists>s. messageserver p = Some s \<and>
             WritePactFile s (PactDir (config p)) False
               (w\<lparr>trace := trace w @ [HandlerCalled (fst mm)]\<rparr>) = Some (r, w'))))"
  using assms
  by (cases "f (fst mm)") (auto simp: yield_block_def Let_def split: option.splits)

lemma yield_block_handler_error:
  "f (fst mm) = Some e \<Longrightarrow>
   yield_block p (Some f) mm w =
     Some (Some e, snd mm, w\<lparr>trace := trace w @ [HandlerCalled (fst mm)]\<rparr>)"
  by (simp add: yield_block_def Let_def)


lemma yield_block_trace:
  assumes "yield_block p hdl mm w = Some (r, msg', w')"
  shows "\<exists>evs. trace w' = trace w @ HandlerCalled (fst mm) # evs"
proof (cases hdl)
  case None
  with assms show ?thesis by (simp add: yield_block_def)
next
  case (Some f)
  from yield_block_Some [OF assms [unfolded Some]] show ?thesis
    by (auto dest!: WritePactFile_Some)
qed

lemma verify_handler_failed:
  assumes "verifyMessageConsumerRaw rt p msg (Some f) w = Some (r, msg', w')"
    and "trace w' = trace w @ HandlerCalled m # evs"
    and "f m = Some e"
  shows "r = Some e \<and> evs = [] \<and> files w' = files w \<and> servers w' = servers w"
proof -
  from verify_Some_cases [OF assms(1)] assms(2)
  obtain mm where y: "yield_block p (Some f) mm w = Some (r, msg', w')"
    by auto
  from yield_block_Some [OF y] show ?thesis
  proof (elim conjE disjE exE)
    assume "f (fst mm) = r" "r \<noteq> None"
      and w': "w' = w\<lparr>trace := trace w @ [HandlerCalled (fst mm)]\<rparr>"
    with assms(2,3) show ?thesis by auto
  next
    fix s
    assume ok: "f (fst mm) = None"
      and wr: "WritePactFile s (PactDir (config p)) False
                 (w\<lparr>trace := trace w @ [HandlerCalled (fst mm)]\<rparr>) = Some (r, w')"
    from WritePactFile_Some [OF wr] assms(2) have "m = fst mm" by simp
    with ok assms(3) show ?thesis by simp
  qed
qed


lemma verify_handler_error_run:
  assumes "messageHandle msg = Some mh" and "interaction_at w mh = Some i"
    and "json_Unmarshal_message rt (ReifyMessage rt i) = Inr m"
    and "narrow_block rt msg m = Inr mm"
    and "f (fst mm) = Some e"
  shows "verifyMessageConsumerRaw rt p msg (Some f) w =
           Some (Some e, snd mm, w\<lparr>trace := trace w @ [HandlerCalled (fst mm)]\<rparr>)"
  using assms(4,5) by (simp add: verify_decoded [OF assms(1-3)] yield_block_handler_error)


section \<open>The pact file writer\<close>









section \<open>Runs of the example values\<close>

lemma example_handle:
  "messageHandle example_message = Some (0, 0) \<and>
   interaction_at (world_with [i]) (0, 0) = Some i"
  by (simp add: example_message_def world_with_def interaction_at_def server_at_def)

lemma example_no_type: "Type example_message = None"
  by (simp add: example_message_def)

lemma stub_decodes:
  "json_Unmarshal_message (stub_runtime body d n) (ReifyMessage (stub_runtime body d n) i) = d"
  by (simp add: stub_runtime_def)


lemma example_failing_run:
  "verifyMessageConsumerRaw (stub_runtime ''{}'' (Inr zero_message) (None, None)) example_pact
     example_message (Some failing_handler) (world_with [i]) =
   Some (Some ''boom'', example_message,
         (world_with [i])\<lparr>trace := trace (world_with [i]) @ [HandlerCalled zero_message]\<rparr>)"
proof -
  from example_handle [of i] have h: "messageHandle example_message = Some (0, 0)"
    and a: "interaction_at (world_with [i]) (0, 0) = Some i" by simp_all
  show ?thesis
    by (simp add: verify_decoded [OF h a stub_decodes] narrow_block_no_type [OF example_no_type]
        yield_block_handler_error failing_handler_def)
qed

lemma example_write:
  "WritePactFile 0 ''/work/pacts'' False
     ((world_with [i])\<lparr>trace := trace (world_with [i]) @ [HandlerCalled m]\<rparr>) =
   Some (None,
     (world_with [i])
       \<lparr>trace := [NativeInit, HandlerCalled m, WritePactFileCalled 0 ''/work/pacts'' False],
        files := (\<lambda>path. None)(''/work/pacts/consumer-provider.json'' \<mapsto>
          \<lparr>contract_consumer = ''consumer'', contract_provider = ''provider'',
           contract_interactions = [i], specVersion = ''3.0.0''\<rparr>)\<rparr>)"
  by (simp add: WritePactFile_def world_with_def server_at_def pact_path_def
      pact_specification_def Let_def)

lemma example_accepting_run:
  "verifyMessageConsumerRaw (stub_runtime ''{}'' (Inr zero_message) (None, None)) example_pact
     example_message (Some accepting_handler) (world_with [i]) =
   Some (None, example_message,
     (world_with [i])
       \<lparr>trace := [NativeInit, HandlerCalled zero_message,
                  WritePactFileCalled 0 ''/work/pacts'' False],
        files := (\<lambda>path. None)(''/work/pacts/consumer-provider.json'' \<mapsto>
          \<lparr>contract_consumer = ''consumer'', contract_provider = ''provider'',
           contract_interactions = [i], specVersion = ''3.0.0''\<rparr>)\<rparr>)"
proof -
  from example_handle [of i] have h: "messageHandle example_message = Some (0, 0)"
    and a: "interaction_at (world_with [i]) (0, 0) = Some i" by simp_all
  have s: "messageserver example_pact = Some 0" "PactDir (config example_pact) = ''/work/pacts''"
    by (simp_all add: example_pact_def)
  show ?thesis
    by (simp add: verify_decoded [OF h a stub_decodes] narrow_block_no_type [OF example_no_type]
        yield_block_def Let_def accepting_handler_def s example_write)
qed








section \<open>Creating pacts and messages\<close>

text \<open>
  C9. For every \<open>Config\<close> value, an empty consumer name, provider name or \<open>PactDir\<close>
  included, \<open>NewMessagePact\<close> returns a non-nil \<open>Pact\<close> and a nil error: the validation of
  the configuration never fails. An empty \<open>PactDir\<close> is replaced by
  \<open>filepath.Join(dir, "pacts")\<close>, where \<open>dir\<close> is the working directory (the empty
  string when \<open>os.Getwd\<close> fails, whose error is dropped); any other \<open>PactDir\<close> is kept.
\<close>

theorem NewMessagePact_never_fails:
  "fst (NewMessagePact rt c w) =
     (Some \<lparr>config = c\<lparr>PactDir :=
               (if PactDir c = []
                then filepath_Join rt (case cwd w of None \<Rightarrow> [] | Some d \<Rightarrow> d) ''pacts''
                else PactDir c)\<rparr>,
            messageserver = Some (length (servers w))\<rparr>,
      None)"
  by (simp add: NewMessagePact_def validateConfig_def NewMessageServer_def native_Init_def
      Let_def os_Getwd_def split: option.splits)

theorem NewMessagePact_never_fails_witness:
  "cwd start_world = Some ''/work'' \<and>
   NewMessagePact (stub_runtime ''{}'' (Inr zero_message) (None, None)) example_config start_world =
     ((Some example_pact, None), world_with [])"
  using NewMessagePact_never_fails
    [of "stub_runtime ''{}'' (Inr zero_message) (None, None)" example_config start_world]
  by (simp add: NewMessagePact_def validateConfig_def NewMessageServer_def native_Init_def
      Let_def os_Getwd_def start_world_def example_config_def example_pact_def
      world_with_def stub_runtime_def)

text \<open>
  C10. For every \<open>Pact\<close> value the deprecated \<open>AddMessage\<close> does what
  \<open>AddAsynchronousMessage\<close> does: the same result and the same state of the message
  server afterwards (both panic on a \<open>Pact\<close> without a server). On a \<open>Pact\<close> with a
  server both return a new \<open>Message\<close> bound to that \<open>Pact\<close>, with a fresh handle, no
  target type and no handler, and the server has one more, empty, interaction.
\<close>

theorem AddMessage_is_AddAsynchronousMessage:
  "AddMessage p w = AddAsynchronousMessage p w \<and>
   (\<forall>s srv. messageserver p = Some s \<longrightarrow> server_at w s = Some srv \<longrightarrow>
      AddMessage p w =
        Some (\<lparr>messageHandle = Some (s, length (interactions srv)), messagePactV3 = Some p,
               Type = None, handler = None\<rparr>,
              w\<lparr>servers := (servers w)
                 [s := srv\<lparr>interactions := interactions srv @ [empty_interaction]\<rparr>]\<rparr>))"
  by (simp add: AddMessage_def AddAsynchronousMessage_def NewMessage_def)

theorem AddMessage_is_AddAsynchronousMessage_witness:
  "messageserver example_pact = Some 0 \<and>
   server_at (world_with []) 0 =
     Some \<lparr>consumer = ''consumer'', provider = ''provider'', interactions = []\<rparr> \<and>
   AddAsynchronousMessage example_pact (world_with []) =
     Some (example_message, world_with [empty_interaction]) \<and>
   AddMessage example_pact (world_with []) =
     Some (example_message, world_with [empty_interaction])"
  using AddMessage_is_AddAsynchronousMessage [of example_pact "world_with []"]
  by (simp add: example_pact_def world_with_def server_at_def example_message_def
      AddMessage_def)

section \<open>No validation of the description\<close>

text \<open>
  C1, as amended. \<open>verifyMessageConsumerRaw\<close> does not look at the description. For an
  interaction whose description is empty: if the reified body does not decode, the call
  fails with the error "unexpected response from message server, this is a bug in the
  framework", the handler is not invoked and the state is untouched; if the body decodes
  and no target type is recorded, the handler is invoked with the decoded message, and
  the call returns the error of the handler or, when the handler returns nil, attempts
  the write of the pact file with \<open>overwrite\<close> false and returns its result.
\<close>

theorem empty_description_not_validated:
  assumes "messageHandle msg = Some mh" and "interaction_at w mh = Some i"
    and "description i = []"
  shows "(json_Unmarshal_message rt (ReifyMessage rt i) = Inl e \<longrightarrow>
            verifyMessageConsumerRaw rt p msg hdl w =
              Some (Some ''unexpected response from message server, this is a bug in the framework'',
                    msg, w)) \<and>
         (json_Unmarshal_message rt (ReifyMessage rt i) = Inr m \<longrightarrow> Type msg = None \<longrightarrow>
          f m = Some e' \<longrightarrow>
            verifyMessageConsumerRaw rt p msg (Some f) w =
              Some (Some e', msg, w\<lparr>trace := trace w @ [HandlerCalled m]\<rparr>)) \<and>
         (json_Unmarshal_message rt (ReifyMessage rt i) = Inr m \<longrightarrow> Type msg = None \<longrightarrow>
          f m = None \<longrightarrow> messageserver p = Some s \<longrightarrow>
            verifyMessageConsumerRaw rt p msg (Some f) w =
              (case WritePactFile s (PactDir (config p)) False
                      (w\<lparr>trace := trace w @ [HandlerCalled m]\<rparr>) of
                 None \<Rightarrow> None
               | Some ew \<Rightarrow> Some (fst ew, msg, snd ew)))"
proof (intro conjI impI)
  assume "json_Unmarshal_message rt (ReifyMessage rt i) = Inl e"
  from verify_not_decoded [OF assms(1,2) this]
  show "verifyMessageConsumerRaw rt p msg hdl w =
      Some (Some ''unexpected response from message server, this is a bug in the framework'',
            msg, w)" .
next
  assume d: "json_Unmarshal_message rt (ReifyMessage rt i) = Inr m"
    and t: "Type msg = None" and f: "f m = Some e'"
  show "verifyMessageConsumerRaw rt p msg (Some f) w =
      Some (Some e', msg, w\<lparr>trace := trace w @ [HandlerCalled m]\<rparr>)"
    using f
    by (simp add: verify_decoded [OF assms(1,2) d] narrow_block_no_type [OF t]
        yield_block_def Let_def)
next
  assume d: "json_Unmarshal_message rt (ReifyMessage rt i) = Inr m"
    and t: "Type msg = None" and f: "f m = None" and s: "messageserver p = Some s"
  show "verifyMessageConsumerRaw rt p msg (Some f) w =
      (case WritePactFile s (PactDir (config p)) False
              (w\<lparr>trace := trace w @ [HandlerCalled m]\<rparr>) of
         None \<Rightarrow> None
       | Some ew \<Rightarrow> Some (fst ew, msg, snd ew))"
    using f s
    by (simp add: verify_decoded [OF assms(1,2) d] narrow_block_no_type [OF t]
        yield_block_def Let_def split: option.splits)
qed

theorem empty_description_not_validated_witness:
  "messageHandle example_message = Some (0, 0) \<and>
   interaction_at (world_with [empty_interaction]) (0, 0) = Some empty_interaction \<and>
   description (empty_interaction :: matcher_node interaction) = [] \<and>
   Type example_message = None \<and>
   accepting_handler zero_message = None \<and>
   messageserver example_pact = Some 0 \<and>
   verifyMessageConsumerRaw (stub_runtime ''{}'' (Inr zero_message) (None, None)) example_pact
     example_message (Some accepting_handler) (world_with [empty_interaction]) =
   (case WritePactFile 0 (PactDir (config example_pact)) False
           ((world_with [empty_interaction])
              \<lparr>trace := trace (world_with [empty_interaction]) @ [HandlerCalled zero_message]\<rparr>) of
      None \<Rightarrow> None
    | Some ew \<Rightarrow> Some (fst ew, example_message, snd ew))"
proof -
  from example_handle [of empty_interaction]
  have h: "messageHandle example_message = Some (0, 0)"
    and a: "interaction_at (world_with [empty_interaction]) (0, 0) = Some empty_interaction"
    by simp_all
  have e: "description (empty_interaction :: matcher_node interaction) = []"
    by (simp add: empty_interaction_def)
  have d: "json_Unmarshal_message (stub_runtime ''{}'' (Inr zero_message) (None, None))
             (ReifyMessage (stub_runtime ''{}'' (Inr zero_message) (None, None)) empty_interaction) =
           Inr zero_message"
    by (rule stub_decodes)
  have f: "accepting_handler zero_message = None" by (simp add: accepting_handler_def)
  have s: "messageserver example_pact = Some 0" by (simp add: example_pact_def)
  from empty_description_not_validated
    [where f = accepting_handler and m = zero_message and p = example_pact and s = 0
       and rt = "stub_runtime ''{}'' (Inr zero_message) (None, None)", OF h a e]
    d example_no_type f s h a e
  show ?thesis by simp
qed

text \<open>
  C1 as stated fails: a message whose description was never set, or was set to the empty
  string, is verified without an error; the handler is invoked on the reified message
  and the pact file is written.
\<close>

theorem empty_description_counterexample:
  "description (empty_interaction :: matcher_node interaction) = [] \<and>
   AddAsynchronousMessage example_pact (world_with []) =
     Some (example_message, world_with [empty_interaction]) \<and>
   ExpectsToReceive example_message [] (world_with [empty_interaction]) =
     Some (example_message, world_with [empty_interaction]) \<and>
   accepting_handler zero_message = None \<and>
   verifyMessageConsumerRaw (stub_runtime ''{}'' (Inr zero_message) (None, None)) example_pact
     example_message (Some accepting_handler) (world_with [empty_interaction]) =
   Some (None, example_message,
     written_world [empty_interaction] [empty_interaction]
       [NativeInit, HandlerCalled zero_message, WritePactFileCalled 0 ''/work/pacts'' False])"
proof -
  have 1: "description (empty_interaction :: matcher_node interaction) = []"
    by (simp add: empty_interaction_def)
  have 2: "AddAsynchronousMessage example_pact (world_with []) =
     Some (example_message, world_with [empty_interaction])"
    by (simp add: AddAsynchronousMessage_def NewMessage_def example_pact_def world_with_def
        server_at_def example_message_def)
  have 3: "ExpectsToReceive example_message [] (world_with [empty_interaction]) =
     Some (example_message, world_with [empty_interaction])"
    by (simp add: ExpectsToReceive_def native_ExpectsToReceive_def update_interaction_def
        example_message_def world_with_def server_at_def empty_interaction_def)
  have 4: "accepting_handler zero_message = None"
    by (simp add: accepting_handler_def)
  from 1 2 3 4 example_accepting_run [of empty_interaction] show ?thesis
    by (simp add: world_with_def written_world_def)
qed

section \<open>The handler and the pact file\<close>

text \<open>
  C2. For every interaction and every handler: if the handler returns an error for the
  message it is invoked on, then \<open>verifyMessageConsumerRaw\<close> returns a failure, the
  invocation of the handler is the only call it made (the write of the pact file was not
  attempted) and the files are the same before and after the call. The first part says
  so of every call that returned after invoking the handler; the second part says that a
  call which reaches a handler that fails does return. The handler is a function of the
  message; what the user's code does to the file system on its own is outside the model.
\<close>

theorem handler_failure_blocks_persistence:
  "(verifyMessageConsumerRaw rt p msg (Some f) w = Some (r, msg', w') \<longrightarrow>
      trace w' = trace w @ HandlerCalled m # evs \<longrightarrow> f m = Some e \<longrightarrow>
      r \<noteq> None \<and> evs = [] \<and> files w' = files w) \<and>
   (messageHandle msg = Some mh \<longrightarrow> interaction_at w mh = Some i \<longrightarrow>
      json_Unmarshal_message rt (ReifyMessage rt i) = Inr dm \<longrightarrow>
      narrow_block rt msg dm = Inr mm \<longrightarrow> f (fst mm) = Some e \<longrightarrow>
      (\<exists>r0 msg0 w0. verifyMessageConsumerRaw rt p msg (Some f) w = Some (r0, msg0, w0) \<and>
         r0 \<noteq> None \<and> files w0 = files w \<and>
         trace w0 = trace w @ [HandlerCalled (fst mm)]))"
proof (intro conjI impI)
  assume a: "verifyMessageConsumerRaw rt p msg (Some f) w = Some (r, msg', w')"
    "trace w' = trace w @ HandlerCalled m # evs" "f m = Some e"
  from verify_handler_failed [OF a]
  show "r \<noteq> None" and "evs = []" and "files w' = files w" by simp_all
next
  assume "messageHandle msg = Some mh" "interaction_at w mh = Some i"
    "json_Unmarshal_message rt (ReifyMessage rt i) = Inr dm"
    "narrow_block rt msg dm = Inr mm" "f (fst mm) = Some e"
  from verify_handler_error_run [where f = f and mm = mm and p = p, OF this]
  show "\<exists>r0 msg0 w0. verifyMessageConsumerRaw rt p msg (Some f) w = Some (r0, msg0, w0) \<and>
         r0 \<noteq> None \<and> files w0 = files w \<and> trace w0 = trace w @ [HandlerCalled (fst mm)]"
    by simp
qed

theorem handler_failure_blocks_persistence_witness:
  "messageHandle example_message = Some (0, 0) \<and>
   interaction_at (world_with [empty_interaction]) (0, 0) = Some empty_interaction \<and>
   narrow_block (stub_runtime ''{}'' (Inr zero_message) (None, None)) example_message zero_message =
     Inr (zero_message, example_message) \<and>
   failing_handler zero_message = Some ''boom'' \<and>
   verifyMessageConsumerRaw (stub_runtime ''{}'' (Inr zero_message) (None, None)) example_pact
     example_message (Some failing_handler) (world_with [empty_interaction]) =
   Some (Some ''boom'', example_message,
         (world_with [empty_interaction])
           \<lparr>trace := trace (world_with [empty_interaction]) @ [HandlerCalled zero_message]\<rparr>) \<and>
   files ((world_with [empty_interaction])
           \<lparr>trace := trace (world_with [empty_interaction]) @ [HandlerCalled zero_message]\<rparr>) =
   files (world_with [empty_interaction])"
proof -
  let ?rt = "stub_runtime ''{}'' (Inr zero_message) (None, None)"
  let ?w = "world_with [empty_interaction]"
  let ?w' = "?w\<lparr>trace := trace ?w @ [HandlerCalled zero_message]\<rparr>"
  from example_handle [of empty_interaction]
  have h: "messageHandle example_message = Some (0, 0)"
    and a: "interaction_at ?w (0, 0) = Some empty_interaction"
    by simp_all
  have d: "json_Unmarshal_message ?rt (ReifyMessage ?rt empty_interaction) = Inr zero_message"
    by (rule stub_decodes)
  have n: "narrow_block ?rt example_message zero_message = Inr (zero_message, example_message)"
    by (rule narrow_block_no_type [OF example_no_type])
  have f: "failing_handler zero_message = Some ''boom''"
    by (simp add: failing_handler_def)
  have t: "trace ?w' = trace ?w @ HandlerCalled zero_message # []"
    by simp
  note inst = handler_failure_blocks_persistence
    [where rt = "?rt" and p = example_pact and msg = example_message and f = failing_handler
       and w = "?w" and r = "Some ''boom''" and msg' = example_message and w' = "?w'"
       and m = zero_message and evs = "[]" and e = "''boom''" and mh = "(0, 0)"
       and i = empty_interaction and dm = zero_message
       and mm = "(zero_message, example_message)"]
  from inst [THEN conjunct1, rule_format, OF example_failing_run t f]
  have "files ?w' = files ?w" by simp
  moreover from f have "failing_handler (fst (zero_message, example_message)) = Some ''boom''"
    by simp
  from inst [THEN conjunct2, rule_format, OF h a d n this]
  have "\<exists>r0 msg0 w0. verifyMessageConsumerRaw ?rt example_pact example_message
          (Some failing_handler) ?w = Some (r0, msg0, w0)"
    by blast
  ultimately show ?thesis using h a n f example_failing_run by simp
qed

text \<open>
  C6, as amended. If the reified body decodes, the narrowing block falls through and the
  handler returns an error for the message it is given, then \<open>verifyMessageConsumerRaw\<close>
  returns: its error is the error of the handler itself, unchanged and unwrapped, the
  handler was invoked once and nothing else was done.
\<close>

theorem handler_error_returned_verbatim:
  assumes "messageHandle msg = Some mh" and "interaction_at w mh = Some i"
    and "json_Unmarshal_message rt (ReifyMessage rt i) = Inr m"
    and "narrow_block rt msg m = Inr mm"
    and "f (fst mm) = Some e"
  shows "verifyMessageConsumerRaw rt p msg (Some f) w =
           Some (Some e, snd mm, w\<lparr>trace := trace w @ [HandlerCalled (fst mm)]\<rparr>)"
  using assms(4,5) by (simp add: verify_decoded [OF assms(1-3)] yield_block_handler_error)

theorem handler_error_returned_verbatim_witness:
  "narrow_block (stub_runtime ''{}'' (Inr zero_message) (None, None)) example_message zero_message =
     Inr (zero_message, example_message) \<and>
   failing_handler zero_message = Some ''boom'' \<and>
   verifyMessageConsumerRaw (stub_runtime ''{}'' (Inr zero_message) (None, None)) example_pact
     example_message (Some failing_handler) (world_with [empty_interaction]) =
   Some (Some ''boom'', example_message,
         (world_with [empty_interaction])
           \<lparr>trace := trace (world_with [empty_interaction]) @ [HandlerCalled zero_message]\<rparr>)"
proof -
  from example_handle [of empty_interaction]
  have h: "messageHandle example_message = Some (0, 0)"
    and a: "interaction_at (world_with [empty_interaction]) (0, 0) = Some empty_interaction"
    by simp_all
  have n: "narrow_block (stub_runtime ''{}'' (Inr zero_message) (None, None)) example_message
             zero_message = Inr (zero_message, example_message)"
    by (rule narrow_block_no_type [OF example_no_type])
  have f: "failing_handler (fst (zero_message, example_message)) = Some ''boom''"
    by (simp add: failing_handler_def)
  have d: "json_Unmarshal_message (stub_runtime ''{}'' (Inr zero_message) (None, None))
             (ReifyMessage (stub_runtime ''{}'' (Inr zero_message) (None, None)) empty_interaction) =
           Inr zero_message"
    by (rule stub_decodes)
  from handler_error_returned_verbatim
    [where f = failing_handler and mm = "(zero_message, example_message)" and p = example_pact,
     OF h a d n f] n f
  show ?thesis by simp
qed

text \<open>
  C6 as stated fails: with a handler that returns the error \<open>boom\<close> the call returns
  that very value, not an error of another kind that wraps it.
\<close>

theorem handler_error_wrapped_counterexample:
  "failing_handler zero_message = Some ''boom'' \<and>
   verifyMessageConsumerRaw (stub_runtime ''{}'' (Inr zero_message) (None, None)) example_pact
     example_message (Some failing_handler) (world_with [empty_interaction]) =
   Some (failing_handler zero_message, example_message,
         (world_with [empty_interaction])
           \<lparr>trace := [NativeInit, HandlerCalled zero_message]\<rparr>)"
  using example_failing_run [of empty_interaction]
  by (simp add: failing_handler_def world_with_def)

section \<open>Narrowing to the target type\<close>

text \<open>
  C4. For every interaction on which a target type was recorded (\<open>Type\<close> is not nil; no Go
  type is named by the keyword \<open>interface\<close>), once the reified body is decoded and its
  content marshalled again: if decoding into the target fails, the call fails with the
  error "unable to narrow type to", the name of the type and the text of the decode
  error, and the state is untouched, so the handler was not invoked; if decoding
  succeeds, the call continues with the value decoded into the target in place of the
  generic content, and whenever it returns, the handler was invoked on the message with
  that narrowed content.
\<close>

theorem type_narrowing:
  assumes "messageHandle msg = Some mh" and "interaction_at w mh = Some i"
    and "json_Unmarshal_message rt (ReifyMessage rt i) = Inr m"
    and "Type msg = Some tv" and "TypeOf_Name rt tv \<noteq> ''interface''"
    and "json_Marshal rt (Content m) = Inr s"
  shows "(snd (json_Unmarshal_iface rt s (Some tv)) = Some e \<longrightarrow>
            verifyMessageConsumerRaw rt p msg hdl w =
              Some (Some (''unable to narrow type to '' @ TypeOf_Name rt tv @ '': '' @ e),
                    msg\<lparr>Type := fst (json_Unmarshal_iface rt s (Some tv))\<rparr>, w)) \<and>
         (snd (json_Unmarshal_iface rt s (Some tv)) = None \<longrightarrow>
            verifyMessageConsumerRaw rt p msg hdl w =
              yield_block p hdl
                (m\<lparr>Content := fst (json_Unmarshal_iface rt s (Some tv))\<rparr>,
                 msg\<lparr>Type := fst (json_Unmarshal_iface rt s (Some tv))\<rparr>) w \<and>
            (\<forall>r msg' w'. verifyMessageConsumerRaw rt p msg hdl w = Some (r, msg', w') \<longrightarrow>
               (\<exists>evs. trace w' = trace w @
                  HandlerCalled (m\<lparr>Content := fst (json_Unmarshal_iface rt s (Some tv))\<rparr>)
                    # evs)))"
proof (intro conjI impI allI)
  assume "snd (json_Unmarshal_iface rt s (Some tv)) = Some e"
  from narrow_block_failed [OF assms(4-6) this]
  show "verifyMessageConsumerRaw rt p msg hdl w =
      Some (Some (''unable to narrow type to '' @ TypeOf_Name rt tv @ '': '' @ e),
            msg\<lparr>Type := fst (json_Unmarshal_iface rt s (Some tv))\<rparr>, w)"
    by (simp add: verify_decoded [OF assms(1-3)])
next
  assume "snd (json_Unmarshal_iface rt s (Some tv)) = None"
  from narrow_block_ok [OF assms(4-6) this]
  show y: "verifyMessageConsumerRaw rt p msg hdl w =
      yield_block p hdl
        (m\<lparr>Content := fst (json_Unmarshal_iface rt s (Some tv))\<rparr>,
         msg\<lparr>Type := fst (json_Unmarshal_iface rt s (Some tv))\<rparr>) w"
    by (simp add: verify_decoded [OF assms(1-3)])
  fix r msg' w'
  assume "verifyMessageConsumerRaw rt p msg hdl w = Some (r, msg', w')"
  with y have "yield_block p hdl
        (m\<lparr>Content := fst (json_Unmarshal_iface rt s (Some tv))\<rparr>,
         msg\<lparr>Type := fst (json_Unmarshal_iface rt s (Some tv))\<rparr>) w = Some (r, msg', w')"
    by simp
  from yield_block_trace [OF this]
  show "\<exists>evs. trace w' = trace w @
      HandlerCalled (m\<lparr>Content := fst (json_Unmarshal_iface rt s (Some tv))\<rparr>) # evs"
    by simp
qed

theorem type_narrowing_witness:
  "Type (AsType example_message (Some (Literal SNull))) = Some (Literal SNull) \<and>
   verifyMessageConsumerRaw
     (stub_runtime ''{}'' (Inr zero_message) (None, Some ''json: cannot unmarshal'')) example_pact
     (AsType example_message (Some (Literal SNull))) (Some accepting_handler)
     (world_with [order_interaction]) =
   Some (Some ''unable to narrow type to Order: json: cannot unmarshal'',
         (AsType example_message (Some (Literal SNull)))\<lparr>Type := None\<rparr>,
         world_with [order_interaction]) \<and>
   verifyMessageConsumerRaw
     (stub_runtime ''{}'' (Inr zero_message) (Some order_reified, None)) example_pact
     (AsType example_message (Some (Literal SNull))) (Some failing_handler)
     (world_with [order_interaction]) =
   Some (Some ''boom'', (AsType example_message (Some (Literal SNull)))\<lparr>Type := Some order_reified\<rparr>,
         (world_with [order_interaction])
           \<lparr>trace := [NativeInit, HandlerCalled (zero_message\<lparr>Content := Some order_reified\<rparr>)]\<rparr>)"
proof -
  let ?msg = "AsType example_message (Some (Literal SNull))"
  let ?w = "world_with [order_interaction]"
  let ?bad = "stub_runtime ''{}'' (Inr zero_message) (None, Some ''json: cannot unmarshal'')"
  let ?good = "stub_runtime ''{}'' (Inr zero_message) (Some order_reified, None)"
  from example_handle [of order_interaction]
  have h: "messageHandle ?msg = Some (0, 0)"
    and a: "interaction_at ?w (0, 0) = Some order_interaction"
    by (simp_all add: AsType_def)
  have t: "Type ?msg = Some (Literal SNull)" by (simp add: AsType_def)
  have n: "TypeOf_Name ?bad (Literal SNull) \<noteq> ''interface''"
    "TypeOf_Name ?good (Literal SNull) \<noteq> ''interface''"
    by (simp_all add: stub_runtime_def)
  have j: "json_Marshal ?bad (Content zero_message) = Inr ''null''"
    "json_Marshal ?good (Content zero_message) = Inr ''null''"
    by (simp_all add: stub_runtime_def)
  have d: "json_Unmarshal_message ?bad (ReifyMessage ?bad order_interaction) = Inr zero_message"
    "json_Unmarshal_message ?good (ReifyMessage ?good order_interaction) = Inr zero_message"
    by (rule stub_decodes)+
  note bad = type_narrowing [where p = example_pact and hdl = "Some accepting_handler"
      and e = "''json: cannot unmarshal''", OF h a d(1) t n(1) j(1)]
  note good = type_narrowing [where p = example_pact and hdl = "Some failing_handler",
      OF h a d(2) t n(2) j(2)]
  have 1: "verifyMessageConsumerRaw ?bad example_pact ?msg (Some accepting_handler) ?w =
     Some (Some ''unable to narrow type to Order: json: cannot unmarshal'',
           ?msg\<lparr>Type := None\<rparr>, ?w)"
    using bad by (simp add: stub_runtime_def)
  have 2: "verifyMessageConsumerRaw ?good example_pact ?msg (Some failing_handler) ?w =
     Some (Some ''boom'', ?msg\<lparr>Type := Some order_reified\<rparr>,
           ?w\<lparr>trace := [NativeInit, HandlerCalled (zero_message\<lparr>Content := Some order_reified\<rparr>)]\<rparr>)"
    using good
    by (simp add: stub_runtime_def yield_block_def Let_def failing_handler_def world_with_def)
  from t 1 2 show ?thesis by simp
qed

section \<open>Persisting a verified interaction\<close>



section \<open>Merge idempotence\<close>



section \<open>Reification\<close>

lemma collect_Inr_iff:
  "collect rs = Inr vs \<longleftrightarrow> rs = map Inr vs"
proof (induction rs arbitrary: vs rule: collect.induct)
  case 1
  show ?case by auto
next
  case (2 e rs)
  show ?case by auto
next
  case (3 v rs)
  show ?case
  proof (cases vs)
    case Nil
    then show ?thesis by (simp split: sum.splits)
  next
    case (Cons u us)
    with 3 [of us] show ?thesis by (auto split: sum.splits)
  qed
qed

lemma collect_elements:
  assumes "collect (map f xs) = Inr vs" and "u \<in> set vs"
  shows "\<exists>x \<in> set xs. f x = Inr u"
proof -
  from assms(1) have "map f xs = map Inr vs" by (simp add: collect_Inr_iff)
  then have "Inr u \<in> set (map f xs)" using assms(2) by simp
  then show ?thesis by auto
qed

lemma collect_succeeds:
  "(\<And>x. x \<in> set xs \<Longrightarrow> \<exists>v. f x = Inr v) \<Longrightarrow> \<exists>vs. collect (map f xs) = Inr vs"
proof (induction xs)
  case Nil
  show ?case by simp
next
  case (Cons x xs)
  from Cons.prems [of x] obtain v where v: "f x = Inr v" by auto
  from Cons.IH Cons.prems obtain vs where "collect (map f xs) = Inr vs" by auto
  with v show ?case by simp
qed

lemma set_generate_min: "set (generate_min n xs) \<subseteq> set xs"
proof -
  have "set (generate_min n xs) \<subseteq> set (concat (replicate n xs))"
    unfolding generate_min_def by (rule set_take_subset)
  also have "\<dots> \<subseteq> set xs" by auto
  finally show ?thesis .
qed

lemma resolve_plain:
  assumes "plain v" and "resolve canon v r = Inr u"
  shows "plain u"
proof (cases r)
  case (ArrayMinMax mn mx)
  show ?thesis
  proof (cases v)
    case (Sequence vs)
    with assms(1) set_generate_min [of mn vs] have "plain (Sequence (generate_min mn vs))"
      by auto
    with assms(2) ArrayMinMax Sequence show ?thesis by simp
  qed (use assms ArrayMinMax in auto)
qed (use assms in \<open>auto split: if_splits\<close>)

lemma resolve_succeeds:
  "(case r of Unrecognised k \<Rightarrow> False | _ \<Rightarrow> True) \<Longrightarrow> \<exists>u. resolve canon v r = Inr u"
  by (cases r) simp_all

lemma reify_plain: "reify canon M = Inr v \<Longrightarrow> plain v"
proof (induction canon M arbitrary: v rule: reify.induct)
  case (1 canon s)
  then show ?case by auto
next
  case (2 canon xs)
  from "2.prems" obtain vs where c: "collect (map (reify canon) xs) = Inr vs"
    and v: "v = Sequence vs"
    by (auto split: sum.splits)
  have "plain u" if "u \<in> set vs" for u
  proof -
    from collect_elements [OF c that] obtain x where "x \<in> set xs" "reify canon x = Inr u"
      by blast
    then show ?thesis by (rule "2.IH")
  qed
  with v show ?case by simp
next
  case (3 canon kvs)
  from "3.prems" obtain vs where c: "collect (map (\<lambda>kv. reify canon (snd kv)) kvs) = Inr vs"
    and v: "v = Mapping (zip (map fst kvs) vs)"
    by (auto split: sum.splits)
  have "plain (snd kv)" if "kv \<in> set (zip (map fst kvs) vs)" for kv
  proof -
    from that set_zip_rightD [of "fst kv" "snd kv" "map fst kvs" vs]
    have "snd kv \<in> set vs" by simp
    from collect_elements [OF c this]
    obtain kx where "kx \<in> set kvs" "reify canon (snd kx) = Inr (snd kv)"
      by blast
    then show ?thesis by (rule "3.IH")
  qed
  with v show ?case by simp
next
  case (4 canon ex r g)
  from "4.prems" obtain u where u: "reify canon ex = Inr u" and r: "resolve canon u r = Inr v"
    by (auto split: sum.splits)
  from "4.IH" [OF u] have "plain u" .
  from resolve_plain [OF this r] show ?case .
qed

lemma reify_succeeds: "recognised M \<Longrightarrow> \<exists>v. reify canon M = Inr v"
proof (induction canon M rule: reify.induct)
  case (1 canon s)
  show ?case by simp
next
  case (2 canon xs)
  have "\<exists>v. reify canon x = Inr v" if "x \<in> set xs" for x
    using that "2.prems" by (intro "2.IH") simp_all
  from collect_succeeds [of xs "reify canon", OF this]
  obtain vs where "collect (map (reify canon) xs) = Inr vs" by blast
  then show ?case by simp
next
  case (3 canon kvs)
  have "\<exists>v. reify canon (snd kv) = Inr v" if "kv \<in> set kvs" for kv
    using that "3.prems" by (intro "3.IH") simp_all
  from collect_succeeds [of kvs "\<lambda>kv. reify canon (snd kv)", OF this]
  obtain vs where "collect (map (\<lambda>kv. reify canon (snd kv)) kvs) = Inr vs" by blast
  then show ?case by simp
next
  case (4 canon ex r g)
  from "4.prems" have ex: "recognised ex"
    and r: "(case r of Unrecognised k \<Rightarrow> False | _ \<Rightarrow> True)" by simp_all
  from "4.IH" [OF ex] obtain u where u: "reify canon ex = Inr u" by blast
  from resolve_succeeds [OF r, of canon u] obtain v where "resolve canon u r = Inr v" by blast
  with u show ?case by simp
qed

lemma event_reifies: "reify canonical_text event_content = Inr event_reified"
  by (simp add: event_content_def event_reified_def canonical_text_def generate_min_def
      eval_nat_numeral)

text \<open>
  C8. For every MatcherNode tree, an output of the reification is plain: it contains no
  matching rule and no matcher metadata, every annotated node is replaced by a plain
  value (also a node nested in the example of another one, and the elements of an
  annotated sequence), and the sequences and mappings of the output contain only plain
  values. A tree in which every rule kind is recognised has an output; the others fail
  with \<open>UnsupportedMatcherKind\<close>.
\<close>

theorem reified_output_is_plain:
  "(reify canon M = Inr v \<longrightarrow> plain v) \<and>
   (recognised M \<longrightarrow> (\<exists>u. reify canon M = Inr u))"
  by (blast intro: reify_plain dest: reify_succeeds)

theorem reified_output_is_plain_witness:
  "recognised event_content \<and> \<not> plain event_content \<and>
   reify canonical_text event_content = Inr event_reified \<and> plain event_reified"
proof -
  have r: "recognised event_content" by (simp add: event_content_def)
  have n: "\<not> plain event_content" by (simp add: event_content_def)
  note inst = reified_output_is_plain [of canonical_text event_content event_reified]
  from inst [THEN conjunct1, rule_format, OF event_reifies] have p: "plain event_reified" .
  from inst [THEN conjunct2, rule_format, OF r]
  have "\<exists>u. reify canonical_text event_content = Inr u" .
  with r n p event_reifies show ?thesis by simp
qed

end
